theory Spec2Isabelle
  imports Complex_Main
begin

section \<open>Floating-point components\<close>

text \<open>
  The tensors of \<^verbatim>\<open>quickprop.ipynb\<close> hold IEEE floating-point numbers. A component is
  modelled as a finite real number, one of the two infinities, or NaN. The special
  values follow IEEE 754, which is what torch and numpy compute: a nonzero number
  divided by zero is an infinity, \<open>0 / 0\<close> and \<open>0 * inf\<close> are NaN, and NaN propagates
  through every operation and makes every comparison false.

  The elementwise arithmetic of the tensors (\<open>fl_add\<close>, \<open>fl_mul\<close>, \<open>fl_div\<close>) is
  idealised: on finite numbers it is exact, without rounding, overflow, underflow or
  the sign of zero. A statement about all finite values holds of the code only where
  none of these occurs, and says so. The scalar arithmetic on the mean loss is rounded
  to float32 (section Rounding), since the result of the driver depends on it.
\<close>

datatype fl = Fin real | PInf | NInf | NaN

fun fl_neg :: "fl \<Rightarrow> fl" where
  "fl_neg (Fin x) = Fin (- x)"
| "fl_neg PInf = NInf"
| "fl_neg NInf = PInf"
| "fl_neg NaN = NaN"

fun fl_add :: "fl \<Rightarrow> fl \<Rightarrow> fl" where
  "fl_add NaN b = NaN"
| "fl_add a NaN = NaN"
| "fl_add (Fin x) (Fin y) = Fin (x + y)"
| "fl_add PInf NInf = NaN"
| "fl_add NInf PInf = NaN"
| "fl_add PInf b = PInf"
| "fl_add NInf b = NInf"
| "fl_add (Fin x) b = b"

definition fl_sub :: "fl \<Rightarrow> fl \<Rightarrow> fl" where
  "fl_sub a b = fl_add a (fl_neg b)"

text \<open>The product of an infinity and a finite number: NaN at zero, else signed.\<close>

definition inf_times :: "bool \<Rightarrow> real \<Rightarrow> fl" where
  "inf_times pos x = (if x = 0 then NaN else if (0 < x) = pos then PInf else NInf)"

fun fl_mul :: "fl \<Rightarrow> fl \<Rightarrow> fl" where
  "fl_mul NaN b = NaN"
| "fl_mul a NaN = NaN"
| "fl_mul (Fin x) (Fin y) = Fin (x * y)"
| "fl_mul PInf (Fin y) = inf_times True y"
| "fl_mul NInf (Fin y) = inf_times False y"
| "fl_mul (Fin x) PInf = inf_times True x"
| "fl_mul (Fin x) NInf = inf_times False x"
| "fl_mul PInf PInf = PInf"
| "fl_mul NInf NInf = PInf"
| "fl_mul PInf NInf = NInf"
| "fl_mul NInf PInf = NInf"

fun fl_div :: "fl \<Rightarrow> fl \<Rightarrow> fl" where
  "fl_div NaN b = NaN"
| "fl_div a NaN = NaN"
| "fl_div (Fin x) (Fin y) =
     (if y \<noteq> 0 then Fin (x / y)
      else if x = 0 then NaN else if 0 < x then PInf else NInf)"
| "fl_div (Fin x) b = Fin 0"
| "fl_div PInf (Fin y) = (if 0 \<le> y then PInf else NInf)"
| "fl_div NInf (Fin y) = (if 0 \<le> y then NInf else PInf)"
| "fl_div a b = NaN"

fun fl_abs :: "fl \<Rightarrow> fl" where
  "fl_abs (Fin x) = Fin \<bar>x\<bar>"
| "fl_abs PInf = PInf"
| "fl_abs NInf = PInf"
| "fl_abs NaN = NaN"

fun fl_sign :: "fl \<Rightarrow> fl" where
  "fl_sign (Fin x) = Fin (sgn x)"
| "fl_sign PInf = Fin 1"
| "fl_sign NInf = Fin (- 1)"
| "fl_sign NaN = NaN"

fun fl_ceil :: "fl \<Rightarrow> fl" where
  "fl_ceil (Fin x) = Fin (of_int \<lceil>x\<rceil>)"
| "fl_ceil a = a"

fun fl_lt :: "fl \<Rightarrow> fl \<Rightarrow> bool" where
  "fl_lt NaN b = False"
| "fl_lt a NaN = False"
| "fl_lt (Fin x) (Fin y) = (x < y)"
| "fl_lt a NInf = False"
| "fl_lt PInf b = False"
| "fl_lt a b = True"

definition fl_gt :: "fl \<Rightarrow> fl \<Rightarrow> bool" where
  "fl_gt a b = fl_lt b a"

fun fl_le :: "fl \<Rightarrow> fl \<Rightarrow> bool" where
  "fl_le NaN b = False"
| "fl_le a NaN = False"
| "fl_le (Fin x) (Fin y) = (x \<le> y)"
| "fl_le NInf b = True"
| "fl_le a PInf = True"
| "fl_le a b = False"

text \<open>\<^verbatim>\<open>np.maximum\<close> and \<^verbatim>\<open>np.minimum\<close> return NaN when either argument is NaN.\<close>

fun fl_maximum :: "fl \<Rightarrow> fl \<Rightarrow> fl" where
  "fl_maximum NaN b = NaN"
| "fl_maximum a NaN = NaN"
| "fl_maximum a b = (if fl_lt a b then b else a)"

fun fl_minimum :: "fl \<Rightarrow> fl \<Rightarrow> fl" where
  "fl_minimum NaN b = NaN"
| "fl_minimum a NaN = NaN"
| "fl_minimum a b = (if fl_lt b a then b else a)"

text \<open>\<^verbatim>\<open>np.clip(a, a_min, a_max)\<close> is \<^verbatim>\<open>np.minimum(a_max, np.maximum(a, a_min))\<close>.\<close>

definition fl_clip :: "fl \<Rightarrow> fl \<Rightarrow> fl \<Rightarrow> fl" where
  "fl_clip a a_min a_max = fl_minimum a_max (fl_maximum a a_min)"

definition is_fin :: "fl \<Rightarrow> bool" where
  "is_fin a = (case a of Fin x \<Rightarrow> True | _ \<Rightarrow> False)"

section \<open>Rounding\<close>

text \<open>
  \<open>rne\<close> rounds to the nearest integer, ties to the even one. \<open>round_float p emin emax\<close>
  rounds a real number to the nearest binary floating-point number with \<open>p\<close> bits of
  precision and exponents from \<open>emin\<close> to \<open>emax\<close>: to a multiple of the unit in the
  last place at the exponent of \<open>x\<close>, of the smallest unit below \<open>2^emin\<close> (gradual
  underflow), and to an infinity when the rounded magnitude reaches \<open>2^(emax + 1)\<close>.
\<close>

definition rne :: "real \<Rightarrow> int" where
  "rne x = (let f = \<lfloor>x\<rfloor>; d = x - of_int f
            in if d < 1 / 2 then f else if 1 / 2 < d then f + 1
               else if even f then f else f + 1)"

definition round_float :: "nat \<Rightarrow> int \<Rightarrow> int \<Rightarrow> real \<Rightarrow> fl" where
  "round_float p emin emax x =
     (if x = 0 then Fin 0
      else let q = max \<lfloor>log 2 \<bar>x\<bar>\<rfloor> emin - (int p - 1);
               r = of_int (rne (x / 2 powi q)) * 2 powi q
           in if 2 powi (emax + 1) \<le> \<bar>r\<bar> then (if 0 < x then PInf else NInf)
              else Fin r)"

definition round32 :: "real \<Rightarrow> fl" where
  "round32 = round_float 24 (- 126) 127"

definition round64 :: "real \<Rightarrow> fl" where
  "round64 = round_float 53 (- 1022) 1023"

definition to_f32 :: "fl \<Rightarrow> fl" where
  "to_f32 a = (case a of Fin x \<Rightarrow> round32 x | _ \<Rightarrow> a)"

text \<open>
  The arithmetic of numpy's float32 scalars: the exact result, rounded. A float32 scalar
  combined with a Python number stays float32 (numpy 2; the Python number is converted
  to float32 first).
\<close>

definition np_add :: "fl \<Rightarrow> fl \<Rightarrow> fl" where
  "np_add a b = to_f32 (fl_add a b)"

definition np_sub :: "fl \<Rightarrow> fl \<Rightarrow> fl" where
  "np_sub a b = to_f32 (fl_sub a b)"

definition np_mul :: "fl \<Rightarrow> fl \<Rightarrow> fl" where
  "np_mul a b = to_f32 (fl_mul a b)"


section \<open>Tensors and errors\<close>

text \<open>
  A tensor is modelled by the list of its components, in one fixed order. Binary
  tensor operations are elementwise. The list does not record the 2-D shape, so \<open>bop\<close>
  is torch's operation in these cases: two tensors of the same shape (equal length:
  component by component), and a tensor with a single component against any tensor
  (the single component is stretched). For two tensors of different sizes, neither of
  a single component, torch decides by the shapes: column shapes \<open>(n, 1)\<close> and \<open>(m, 1)\<close>
  raise a \<^verbatim>\<open>RuntimeError\<close>, which is what \<open>bop\<close> returns, while other shapes, such as
  \<open>(1, 3)\<close> and \<open>(2, 1)\<close>, are broadcast in each dimension. No theorem below rests on
  that last case.
\<close>

type_synonym tensor = "fl list"

datatype error = ShapeError | AttributeError | ProviderError | ZeroDivisionError

definition bop :: "(fl \<Rightarrow> fl \<Rightarrow> fl) \<Rightarrow> tensor \<Rightarrow> tensor \<Rightarrow> error + tensor" where
  "bop f xs ys =
     (if length xs = length ys then Inr (map2 f xs ys)
      else if length xs = 1 then Inr (map (f (hd xs)) ys)
      else if length ys = 1 then Inr (map (\<lambda>x. f x (hd ys)) xs)
      else Inl ShapeError)"

text \<open>A raised exception ends the computation: the rest is not run.\<close>

definition err_bind :: "error + 'a \<Rightarrow> ('a \<Rightarrow> error + 'b) \<Rightarrow> error + 'b" where
  "err_bind m k = (case m of Inl e \<Rightarrow> Inl e | Inr v \<Rightarrow> k v)"

section \<open>The gradient provider\<close>

text \<open>
  \<^verbatim>\<open>calc_gradient(x, y, w, activation, loss)\<close> runs the forward pass and torch's
  automatic differentiation. It is a parameter of the model: a function of the weights
  \<open>w\<close> (the data \<open>x\<close>, \<open>y\<close> and the functions \<open>activation\<close>, \<open>loss\<close> are fixed
  in it) that returns the loss, the gradient and the prediction, or raises. The
  provider's own state is threaded through, so that each invocation is visible.
\<close>

type_synonym ('s, 'p) provider = "tensor \<Rightarrow> 's \<Rightarrow> error + ((fl \<times> tensor \<times> 'p) \<times> 's)"

section \<open>Gradient-descent step\<close>

text \<open>
  \<^verbatim>\<open>
  def grad_descent_step(x, y, w, activation, loss, learning_rate=1e-5):
      L, dL, predicted = calc_gradient(x, y, w, activation, loss)
      dw = -learning_rate * dL
      new_w = w + dw
      return new_w, dw, L, dL
  \<close>
\<close>

definition grad_descent_step ::
  "('s, 'p) provider \<Rightarrow> tensor \<Rightarrow> fl \<Rightarrow> 's \<Rightarrow> error + ((tensor \<times> tensor \<times> fl \<times> tensor) \<times> 's)" where
  "grad_descent_step calc_gradient w learning_rate s =
     err_bind (calc_gradient w s) (\<lambda>((L, dL, predicted), s').
       let dw = map (fl_mul (fl_neg learning_rate)) dL in
       err_bind (bop fl_add w dw) (\<lambda>new_w.
         Inr ((new_w, dw, L, dL), s')))"

section \<open>The Quickprop update rule\<close>

text \<open>
  \<^verbatim>\<open>
  def cond_add_slope(dw, dw_prev, dL, learning_rate=1.5):
      ddw = np.clip(np.abs(np.sign(dw) + np.sign(dw_prev)), a_min=0, a_max=1)
      return dw + ddw * (-learning_rate * dL)
  \<close>
\<close>

text \<open>
  The term that is added, \<open>ddw * (-learning_rate * dL)\<close>, is a definition of its own,
  so that it can be spoken about.
\<close>

definition slope_addition :: "tensor \<Rightarrow> tensor \<Rightarrow> tensor \<Rightarrow> fl \<Rightarrow> error + tensor" where
  "slope_addition dw dw_prev dL learning_rate =
     err_bind (bop fl_add (map fl_sign dw) (map fl_sign dw_prev)) (\<lambda>sg.
       let ddw = map (\<lambda>c. fl_clip (fl_abs c) (Fin 0) (Fin 1)) sg in
       bop fl_mul ddw (map (fl_mul (fl_neg learning_rate)) dL))"

definition cond_add_slope :: "tensor \<Rightarrow> tensor \<Rightarrow> tensor \<Rightarrow> fl \<Rightarrow> error + tensor" where
  "cond_add_slope dw dw_prev dL learning_rate =
     err_bind (slope_addition dw dw_prev dL learning_rate) (\<lambda>slope.
       bop fl_add dw slope)"

text \<open>
  \<^verbatim>\<open>
  def clip_at_max_growth(dw, dw_prev, max_growth_factor=1.75):
      max_growth = max_growth_factor * np.abs(dw_prev)
      return np.clip(dw, a_min=(-max_growth), a_max=max_growth)
  \<close>
\<close>

definition clip_at_max_growth :: "tensor \<Rightarrow> tensor \<Rightarrow> fl \<Rightarrow> error + tensor" where
  "clip_at_max_growth dw dw_prev max_growth_factor =
     (let max_growth = map (fl_mul max_growth_factor) (map fl_abs dw_prev) in
      err_bind (bop fl_maximum dw (map fl_neg max_growth)) (\<lambda>lower.
        bop fl_minimum max_growth lower))"

text \<open>
  \<^verbatim>\<open>
  def quickprop_step(x, y, w, dw_prev, dL_prev, activation, loss,
                     qp_learning_rate=1.5, gd_learning_rate=1e-5):
      L, dL, predicted = calc_gradient(x, y, w, activation, loss)
      ddL = np.ceil(np.clip(np.abs(dL_prev - dL), a_min=0, a_max=1) / 2)
      quickprop_factor = ddL       * (dw_prev / (dL_prev - dL))
      grad_desc_factor = (1 - ddL) * (-gd_learning_rate)
      dw = dL * (quickprop_factor + grad_desc_factor)
      dw = cond_add_slope(dw, dw_prev, dL, qp_learning_rate)
      dw = clip_at_max_growth(dw, dw_prev)
      new_w = w + dw
      return new_w, dw, L, dL, predicted
  \<close>
  The first definition is the delta before the two later refinements (the value of
  \<open>dw\<close> after the line \<open>dw = dL * (...)\<close>); the division is carried out on every
  component, whatever the decider bit \<open>ddL\<close> is.
\<close>

definition decider :: "fl \<Rightarrow> fl" where
  "decider c = fl_ceil (fl_div (fl_clip (fl_abs c) (Fin 0) (Fin 1)) (Fin 2))"

definition raw_delta :: "tensor \<Rightarrow> tensor \<Rightarrow> tensor \<Rightarrow> fl \<Rightarrow> error + tensor" where
  "raw_delta dw_prev dL_prev dL gd_learning_rate =
     err_bind (bop fl_sub dL_prev dL) (\<lambda>diff.
       let ddL = map decider diff in
       err_bind (bop fl_sub dL_prev dL) (\<lambda>denom.
       err_bind (bop fl_div dw_prev denom) (\<lambda>quot.
       err_bind (bop fl_mul ddL quot) (\<lambda>quickprop_factor.
         let grad_desc_factor =
               map (\<lambda>c. fl_mul (fl_sub (Fin 1) c) (fl_neg gd_learning_rate)) ddL in
         err_bind (bop fl_add quickprop_factor grad_desc_factor) (\<lambda>factor.
           bop fl_mul dL factor)))))"

definition default_max_growth_factor :: fl where
  "default_max_growth_factor = Fin (7 / 4)"

definition quickprop_step ::
  "('s, 'p) provider \<Rightarrow> tensor \<Rightarrow> tensor \<Rightarrow> tensor \<Rightarrow> fl \<Rightarrow> fl \<Rightarrow> 's
     \<Rightarrow> error + ((tensor \<times> tensor \<times> fl \<times> tensor \<times> 'p) \<times> 's)" where
  "quickprop_step calc_gradient w dw_prev dL_prev qp_learning_rate gd_learning_rate s =
     err_bind (calc_gradient w s) (\<lambda>((L, dL, predicted), s').
       err_bind (raw_delta dw_prev dL_prev dL gd_learning_rate) (\<lambda>dw0.
       err_bind (cond_add_slope dw0 dw_prev dL qp_learning_rate) (\<lambda>dw1.
       err_bind (clip_at_max_growth dw1 dw_prev default_max_growth_factor) (\<lambda>dw.
       err_bind (bop fl_add w dw) (\<lambda>new_w.
         Inr ((new_w, dw, L, dL, predicted), s'))))))"

section \<open>The convergence driver\<close>

text \<open>
  The variables of \<^verbatim>\<open>quickprop\<close> that live across loop iterations. \<open>st_predicted\<close>
  is \<open>None\<close> while \<^verbatim>\<open>predicted\<close> is still the placeholder \<^verbatim>\<open>[]\<close>.
\<close>

record ('s, 'p) qstate =
  st_w :: tensor
  st_dw_prev :: tensor
  st_dL_prev :: tensor
  st_dL :: tensor
  st_L :: fl
  st_L_mean :: fl
  st_L_mean_prev :: fl
  st_L_mean_diff :: fl
  st_i :: int
  st_predicted :: "'p option"
  st_prov :: 's

definition default_gd_learning_rate :: fl where
  "default_gd_learning_rate = Fin (1 / 100000)"

text \<open>
  The code of \<^verbatim>\<open>quickprop\<close> up to the loop:
  \<^verbatim>\<open>
      L_mean = 1; L_mean_prev = 1; L_mean_diff = 1
      dL = torch.zeros(w.shape)
      dL_prev = torch.ones(w.shape)
      dw_prev = torch.ones(w.shape)
      w, dw_prev, L, dL_prev = grad_descent_step(x, y, w, activation, loss)
      i = 0
      predicted = []
  \<close>
\<close>

definition quickprop_init ::
  "('s, 'p) provider \<Rightarrow> tensor \<Rightarrow> 's \<Rightarrow> error + ('s, 'p) qstate" where
  "quickprop_init calc_gradient weights s =
     err_bind (grad_descent_step calc_gradient weights default_gd_learning_rate s)
       (\<lambda>((w, dw_prev, L, dL_prev), s').
         Inr \<lparr>st_w = w, st_dw_prev = dw_prev, st_dL_prev = dL_prev,
              st_dL = replicate (length weights) (Fin 0), st_L = L,
              st_L_mean = Fin 1, st_L_mean_prev = Fin 1, st_L_mean_diff = Fin 1,
              st_i = 0, st_predicted = None, st_prov = s'\<rparr>)"

text \<open>
  The loop body, in two parts: the preparation
  \<^verbatim>\<open>
          i += 1
          dL_prev = dL.clone()
  \<close>
  and the Quickprop step with the bookkeeping of the mean loss
  \<^verbatim>\<open>
          w, dw, L, dL, predicted = quickprop_step(x, y, w, dw_prev, dL_prev,
              activation, loss, qp_learning_rate=learning_rate)
          dw_prev = dw.clone()
          L_mean = L_mean + (1/(i+1))*(L.detach().numpy() - L_mean)
          L_mean_diff = np.abs(L_mean_prev - L_mean)
          L_mean_prev = L_mean
  \<close>
  (the debug printing has no effect on the state and is left out).
\<close>

definition prep_iteration :: "('s, 'p) qstate \<Rightarrow> ('s, 'p) qstate" where
  "prep_iteration st = st\<lparr>st_i := st_i st + 1, st_dL_prev := st_dL st\<rparr>"

text \<open>
  The line \<^verbatim>\<open>L_mean = L_mean + (1/(i+1))*(L.detach().numpy() - L_mean)\<close>. The quotient
  \<^verbatim>\<open>1/(i+1)\<close> of two Python integers is a correctly rounded double (Python raises
  \<^verbatim>\<open>ZeroDivisionError\<close> for \<open>i + 1 = 0\<close>, which is a branch of \<open>loop_body\<close>); it is
  converted to float32 for the product with the float32 difference.
\<close>

definition reciprocal :: "int \<Rightarrow> fl" where
  "reciprocal i = to_f32 (round64 (1 / (of_int i + 1)))"

definition mean_update :: "int \<Rightarrow> fl \<Rightarrow> fl \<Rightarrow> fl" where
  "mean_update i L_mean L = np_add L_mean (np_mul (reciprocal i) (np_sub L L_mean))"

definition loop_body ::
  "('s, 'p) provider \<Rightarrow> fl \<Rightarrow> ('s, 'p) qstate \<Rightarrow> error + ('s, 'p) qstate" where
  "loop_body calc_gradient learning_rate st0 =
     (let st = prep_iteration st0 in
      err_bind (quickprop_step calc_gradient (st_w st) (st_dw_prev st) (st_dL_prev st)
                  learning_rate default_gd_learning_rate (st_prov st))
        (\<lambda>((w, dw, L, dL, predicted), s').
          if st_i st + 1 = 0 then Inl ZeroDivisionError
          else
            let L_mean = mean_update (st_i st) (st_L_mean st) L;
                L_mean_diff = fl_abs (np_sub (st_L_mean_prev st) L_mean)
            in Inr (st\<lparr>st_w := w, st_dw_prev := dw, st_L := L, st_dL := dL,
                        st_predicted := Some predicted, st_L_mean := L_mean,
                        st_L_mean_diff := L_mean_diff, st_L_mean_prev := L_mean,
                        st_prov := s'\<rparr>)))"

text \<open>
  The loop
  \<^verbatim>\<open>
      while L_mean_diff > tolerance and i < patience:
          ...
  \<close>
  ends because \<open>i\<close> grows by one in every iteration. An exception raised in the body
  leaves the loop.
\<close>

function qp_loop ::
  "('s, 'p) provider \<Rightarrow> fl \<Rightarrow> fl \<Rightarrow> int \<Rightarrow> ('s, 'p) qstate \<Rightarrow> error + ('s, 'p) qstate" where
  "qp_loop calc_gradient learning_rate tolerance patience st =
     (if fl_gt (st_L_mean_diff st) tolerance \<and> st_i st < patience
      then (case loop_body calc_gradient learning_rate st of
              Inl e \<Rightarrow> Inl e
            | Inr st' \<Rightarrow> qp_loop calc_gradient learning_rate tolerance patience st')
      else Inr st)"
  by pat_completeness auto
termination
  by (relation "measure (\<lambda>(calc_gradient, learning_rate, tolerance, patience, st).
                  nat (patience - st_i st))")
     (auto simp add: loop_body_def prep_iteration_def err_bind_def Let_def
           split: sum.splits prod.splits if_splits)

declare qp_loop.simps [simp del]

text \<open>
  \<^verbatim>\<open>
      return w.detach().numpy(), predicted.detach().numpy(), i, L.detach().numpy()
  \<close>
  \<^verbatim>\<open>predicted\<close> is a tensor once the body has run; the placeholder \<^verbatim>\<open>[]\<close> is a
  Python list, which has no \<^verbatim>\<open>detach\<close>: the call raises \<^verbatim>\<open>AttributeError\<close>.
\<close>

definition quickprop ::
  "('s, 'p) provider \<Rightarrow> tensor \<Rightarrow> fl \<Rightarrow> fl \<Rightarrow> int \<Rightarrow> 's
     \<Rightarrow> error + ((tensor \<times> 'p \<times> int \<times> fl) \<times> 's)" where
  "quickprop calc_gradient weights learning_rate tolerance patience s =
     err_bind (quickprop_init calc_gradient weights s) (\<lambda>st0.
     err_bind (qp_loop calc_gradient learning_rate tolerance patience st0) (\<lambda>st.
       case st_predicted st of
         None \<Rightarrow> Inl AttributeError
       | Some predicted \<Rightarrow> Inr ((st_w st, predicted, st_i st, st_L st), st_prov st)))"



section \<open>Components of the update rule\<close>

text \<open>
  What the tensor operations of \<open>raw_delta\<close>, \<open>slope_addition\<close>, \<open>clip_at_max_growth\<close>
  and \<open>quickprop_step\<close> compute in one component, from the previous delta \<open>p\<close>, the
  previous gradient \<open>gp\<close> and the gradient \<open>g\<close> of that component.
\<close>

definition raw_comp :: "fl \<Rightarrow> fl \<Rightarrow> fl \<Rightarrow> fl \<Rightarrow> fl" where
  "raw_comp p gp g gd =
     fl_mul g (fl_add (fl_mul (decider (fl_sub gp g)) (fl_div p (fl_sub gp g)))
                      (fl_mul (fl_sub (Fin 1) (decider (fl_sub gp g))) (fl_neg gd)))"

definition slope_comp :: "fl \<Rightarrow> fl \<Rightarrow> fl \<Rightarrow> fl \<Rightarrow> fl" where
  "slope_comp d p g lr =
     fl_mul (fl_clip (fl_abs (fl_add (fl_sign d) (fl_sign p))) (Fin 0) (Fin 1))
            (fl_mul (fl_neg lr) g)"

definition clip_comp :: "fl \<Rightarrow> fl \<Rightarrow> fl \<Rightarrow> fl" where
  "clip_comp d p mgf =
     fl_minimum (fl_mul mgf (fl_abs p)) (fl_maximum d (fl_neg (fl_mul mgf (fl_abs p))))"

definition step_comp :: "fl \<Rightarrow> fl \<Rightarrow> fl \<Rightarrow> fl \<Rightarrow> fl \<Rightarrow> fl" where
  "step_comp p gp g lr gd =
     (let d0 = raw_comp p gp g gd; d1 = fl_add d0 (slope_comp d0 p g lr)
      in clip_comp d1 p default_max_growth_factor)"

section \<open>The running mean of the specification\<close>






section \<open>A provider for the examples\<close>

text \<open>
  The loss \<open>(w - 3)\<^sup>2\<close> of the specification's end-to-end scenario, summed over the
  components, with gradient \<open>2 (w - 3)\<close>; the prediction is the weight tensor itself and
  the provider's state counts its invocations.
\<close>

definition quadratic_provider :: "(nat, tensor) provider" where
  "quadratic_provider w n =
     Inr ((foldr fl_add (map (\<lambda>a. fl_mul (fl_sub a (Fin 3)) (fl_sub a (Fin 3))) w) (Fin 0),
           map (\<lambda>a. fl_mul (Fin 2) (fl_sub a (Fin 3))) w, w), Suc n)"


text \<open>
  States of the driver with the quadratic loss and learning rate \<open>1e-4\<close>. From the
  weight \<open>0\<close>: the state when the loop is entered and the state after the first
  iteration.
\<close>

definition seeded :: "(nat, tensor) qstate" where
  "seeded = \<lparr>st_w = [Fin (3 / 50000)], st_dw_prev = [Fin (3 / 50000)],
        st_dL_prev = [Fin (- 6)], st_dL = [Fin 0], st_L = Fin 9,
        st_L_mean = Fin 1, st_L_mean_prev = Fin 1, st_L_mean_diff = Fin 1,
        st_i = 0, st_predicted = None, st_prov = 1\<rparr>"








section \<open>Basic facts\<close>

lemma err_bind_Inr [simp]: "err_bind (Inr v) k = k v"
  by (simp add: err_bind_def)

lemma err_bind_Inl [simp]: "err_bind (Inl e) k = Inl e"
  by (simp add: err_bind_def)

lemma bop_same_length: "length xs = length ys \<Longrightarrow> bop f xs ys = Inr (map2 f xs ys)"
  by (simp add: bop_def)

lemma raw_delta_components:
  assumes "length dw_prev = n" "length dL_prev = n" "length dL = n"
  shows "raw_delta dw_prev dL_prev dL gd =
           Inr (map (\<lambda>k. raw_comp (dw_prev ! k) (dL_prev ! k) (dL ! k) gd) [0..<n])"
  using assms
  by (auto simp add: raw_delta_def bop_same_length Let_def raw_comp_def intro!: nth_equalityI)

lemma slope_addition_components:
  assumes "length dw = n" "length dw_prev = n" "length dL = n"
  shows "slope_addition dw dw_prev dL lr =
           Inr (map (\<lambda>k. slope_comp (dw ! k) (dw_prev ! k) (dL ! k) lr) [0..<n])"
  using assms
  by (auto simp add: slope_addition_def bop_same_length Let_def slope_comp_def
        intro!: nth_equalityI)

lemma cond_add_slope_components:
  assumes "length dw = n" "length dw_prev = n" "length dL = n"
  shows "cond_add_slope dw dw_prev dL lr =
           Inr (map (\<lambda>k. fl_add (dw ! k) (slope_comp (dw ! k) (dw_prev ! k) (dL ! k) lr))
                  [0..<n])"
  using assms
  by (auto simp add: cond_add_slope_def slope_addition_components [of _ n] bop_same_length
        intro!: nth_equalityI)

lemma clip_at_max_growth_components:
  assumes "length dw = n" "length dw_prev = n"
  shows "clip_at_max_growth dw dw_prev mgf =
           Inr (map (\<lambda>k. clip_comp (dw ! k) (dw_prev ! k) mgf) [0..<n])"
  using assms
  by (auto simp add: clip_at_max_growth_def bop_same_length Let_def clip_comp_def
        intro!: nth_equalityI)

lemma quickprop_step_components:
  assumes "calc_gradient w s = Inr ((L, g, p), s')"
    and "length w = n" "length g = n" "length dw_prev = n" "length dL_prev = n"
  shows "quickprop_step calc_gradient w dw_prev dL_prev lr gd s =
           Inr ((map (\<lambda>k. fl_add (w ! k)
                        (step_comp (dw_prev ! k) (dL_prev ! k) (g ! k) lr gd)) [0..<n],
                 map (\<lambda>k. step_comp (dw_prev ! k) (dL_prev ! k) (g ! k) lr gd) [0..<n],
                 L, g, p), s')"
  using assms
  by (auto simp add: quickprop_step_def raw_delta_components [of _ n]
        cond_add_slope_components [of _ n] clip_at_max_growth_components [of _ n]
        bop_same_length step_comp_def Let_def intro!: nth_equalityI)

lemma fl_NaN_right [simp]:
  "fl_add a NaN = NaN" "fl_mul a NaN = NaN" "fl_div a NaN = NaN"
  "fl_minimum a NaN = NaN" "fl_maximum a NaN = NaN" "fl_sub a NaN = NaN"
  by (cases a; simp add: fl_sub_def)+

lemma fl_sub_NaN_left [simp]: "fl_sub NaN b = NaN"
  by (simp add: fl_sub_def)

section \<open>The gradient-descent step\<close>

text \<open>
  Claim C8. For every parameter tensor \<open>w\<close> and step size \<open>eta\<close>, when the provider
  returns the loss \<open>L\<close> and a gradient \<open>g\<close> of the shape of \<open>w\<close>, \<open>grad_descent_step\<close>
  returns \<open>(w', dw, L, g)\<close> with \<open>dw = - eta * g\<close> and \<open>w' = w + dw\<close> in every
  component, and the provider has been invoked exactly once: its state is the one
  left by the single call at \<open>w\<close>.
\<close>

theorem grad_descent_step_contract:
  assumes "calc_gradient w s = Inr ((L, g, p), s')" and "length g = length w"
  shows "\<exists>w' dw. grad_descent_step calc_gradient w eta s = Inr ((w', dw, L, g), s')
           \<and> length dw = length w \<and> length w' = length w
           \<and> (\<forall>k<length w. dw ! k = fl_mul (fl_neg eta) (g ! k)
                 \<and> w' ! k = fl_add (w ! k) (dw ! k))"
  using assms by (simp add: grad_descent_step_def bop_same_length Let_def)

theorem grad_descent_step_contract_witness:
  "quadratic_provider [Fin 0] 0 = Inr ((Fin 9, [Fin (- 6)], [Fin 0]), 1)
   \<and> grad_descent_step quadratic_provider [Fin 0] (Fin (1 / 100000)) 0
       = Inr (([Fin (3 / 50000)], [Fin (3 / 50000)], Fin 9, [Fin (- 6)]), 1)"
proof -
  have h: "quadratic_provider [Fin 0] 0 = Inr ((Fin 9, [Fin (- 6)], [Fin 0]), 1)"
    by (simp add: quadratic_provider_def fl_sub_def)
  have l: "length [Fin (- 6)] = length [Fin 0]" by simp
  from grad_descent_step_contract
         [where calc_gradient = quadratic_provider and eta = "Fin (1 / 100000)", OF h l]
  obtain w' dw where
    r: "grad_descent_step quadratic_provider [Fin 0] (Fin (1 / 100000)) 0
          = Inr ((w', dw, Fin 9, [Fin (- 6)]), 1)"
    and n: "length dw = 1" "length w' = 1"
    and c: "dw ! 0 = fl_mul (fl_neg (Fin (1 / 100000))) ([Fin (- 6)] ! 0)"
           "w' ! 0 = fl_add ([Fin 0] ! 0) (dw ! 0)"
    by auto
  from n c have "dw = [Fin (3 / 50000)]" "w' = [Fin (3 / 50000)]"
    by (cases dw; cases w'; simp)+
  with h r show ?thesis by simp
qed

section \<open>The division by the gradient difference\<close>

text \<open>
  Where the previous and the current gradient of a component are the same finite
  number, the decider bit is 0 but the quotient \<open>dw_prev / (dL_prev - dL)\<close> is still
  computed: it is an infinity or NaN, its product with the bit 0 is NaN, and NaN
  stays through the slope addition and the clip.
\<close>

lemma raw_comp_equal_gradients: "raw_comp (Fin p) (Fin g) (Fin g) gd = NaN"
  by (simp add: raw_comp_def decider_def fl_sub_def fl_clip_def inf_times_def)

lemma step_comp_NaN:
  "raw_comp p gp g gd = NaN \<Longrightarrow> step_comp p gp g lr gd = NaN"
  by (simp add: step_comp_def Let_def clip_comp_def slope_comp_def)

text \<open>
  Claim C1 says that in a component whose previous gradient equals the current one the
  delta is the gradient-descent term \<open>- learningRate * currentGradient\<close>, never NaN, and
  that no division by zero is carried out. The code does divide: for the weight \<open>0\<close>
  of the quadratic loss (gradient \<open>-6\<close>), previous delta \<open>1\<close> and previous gradient
  \<open>-6\<close>, the raw delta and the returned delta and weight are NaN.
\<close>

theorem zero_denominator_gives_NaN:
  "raw_delta [Fin 1] [Fin (- 6)] [Fin (- 6)] default_gd_learning_rate = Inr [NaN]
   \<and> quickprop_step quadratic_provider [Fin 0] [Fin 1] [Fin (- 6)]
        (Fin (1 / 10000)) default_gd_learning_rate 0
      = Inr (([NaN], [NaN], Fin 9, [Fin (- 6)], [Fin 0]), 1)"
  by (simp add: quickprop_step_def raw_delta_def bop_def quadratic_provider_def fl_sub_def
        decider_def fl_clip_def inf_times_def cond_add_slope_def slope_addition_def
        clip_at_max_growth_def default_gd_learning_rate_def)

section \<open>The update rule on finite components\<close>

text \<open>
  In the idealised arithmetic, with finite numbers and a gradient that differs from the
  previous one, no special value arises, and a component of the step is a real
  expression. (In float32 an overflow or underflow on the way can still produce an
  infinity or NaN; these lemmas do not speak of that.)
\<close>

lemma fl_maximum_Fin [simp]: "fl_maximum (Fin a) (Fin b) = Fin (max a b)"
  by (simp add: max_def)

lemma fl_minimum_Fin [simp]: "fl_minimum (Fin a) (Fin b) = Fin (min a b)"
  by (auto simp add: min_def)

lemma fl_sub_Fin [simp]: "fl_sub (Fin a) (Fin b) = Fin (a - b)"
  by (simp add: fl_sub_def)

lemma decider_Fin: "decider (Fin x) = Fin (if x = 0 then 0 else 1)"
proof (cases "x = 0")
  case True
  then show ?thesis by (simp add: decider_def fl_clip_def)
next
  case False
  then have "0 < min 1 \<bar>x\<bar> / 2" "min 1 \<bar>x\<bar> / 2 \<le> 1" by auto
  then have c: "\<lceil>min 1 \<bar>x\<bar> / 2\<rceil> = 1" by (simp add: ceiling_eq_iff)
  have "decider (Fin x) = Fin (of_int \<lceil>min 1 \<bar>x\<bar> / 2\<rceil>)"
    by (simp add: decider_def fl_clip_def)
  with False show ?thesis by (simp only: c) simp
qed

lemma raw_comp_Fin:
  "gp \<noteq> g \<Longrightarrow> raw_comp (Fin p) (Fin gp) (Fin g) (Fin gd) = Fin (g * (p / (gp - g)))"
  by (simp add: raw_comp_def decider_Fin)

lemma slope_comp_Fin:
  "slope_comp (Fin d) (Fin p) (Fin g) (Fin lr)
     = Fin (min 1 \<bar>sgn d + sgn p\<bar> * (- lr * g))"
  by (simp add: slope_comp_def fl_clip_def max_def)

lemma clip_comp_Fin:
  "clip_comp (Fin d) (Fin p) (Fin m) = Fin (min (m * \<bar>p\<bar>) (max d (- (m * \<bar>p\<bar>))))"
  by (simp add: clip_comp_def)

lemma step_comp_Fin:
  assumes "gp \<noteq> g"
  shows "step_comp (Fin p) (Fin gp) (Fin g) (Fin lr) (Fin gd)
           = Fin (min (7 / 4 * \<bar>p\<bar>)
                   (max (g * (p / (gp - g))
                          + min 1 \<bar>sgn (g * (p / (gp - g))) + sgn p\<bar> * (- lr * g))
                        (- (7 / 4 * \<bar>p\<bar>))))"
  using assms
  by (simp add: step_comp_def Let_def raw_comp_Fin slope_comp_Fin clip_comp_Fin
        default_max_growth_factor_def)

lemma clamp_abs_le: "0 \<le> A \<Longrightarrow> \<bar>min A (max X (- A))\<bar> \<le> (A::real)"
  by (simp add: min_def max_def abs_if)

section \<open>The growth clamp\<close>

text \<open>
  The clip is the last operation on the delta. Its result, when it is not NaN, is within
  \<open>max_growth_factor * |dw_prev|\<close>; in the idealised arithmetic, on finite inputs with
  distinct gradients, the returned delta is finite and within \<open>1.75 * |dw_prev|\<close>.
\<close>

lemma clip_comp_bound:
  assumes "clip_comp d p (Fin m) \<noteq> NaN" and "0 \<le> m"
  shows "fl_le (fl_abs (clip_comp d p (Fin m))) (fl_mul (Fin m) (fl_abs p))"
proof (cases p)
  case (Fin y)
  then have M: "fl_mul (Fin m) (fl_abs p) = Fin (m * \<bar>y\<bar>)" by simp
  have nn: "0 \<le> m * \<bar>y\<bar>" using assms(2) by simp
  show ?thesis
  proof (cases d)
    case (Fin x)
    with \<open>p = Fin y\<close> nn show ?thesis
      by (simp add: M clip_comp_Fin clamp_abs_le)
  next
    case PInf
    with \<open>p = Fin y\<close> nn show ?thesis by (simp add: clip_comp_def)
  next
    case NInf
    with \<open>p = Fin y\<close> nn show ?thesis by (simp add: clip_comp_def)
  next
    case NaN
    with assms(1) show ?thesis by (simp add: clip_comp_def)
  qed
next
  case PInf
  with assms show ?thesis
    by (cases d) (auto simp add: clip_comp_def inf_times_def split: if_splits)
next
  case NInf
  with assms show ?thesis
    by (cases d) (auto simp add: clip_comp_def inf_times_def split: if_splits)
next
  case NaN
  with assms(1) show ?thesis by (simp add: clip_comp_def)
qed

lemma step_comp_growth_bound:
  assumes "gp \<noteq> g"
  shows "\<exists>d. step_comp (Fin p) (Fin gp) (Fin g) (Fin lr) (Fin gd) = Fin d
          \<and> \<bar>d\<bar> \<le> 7 / 4 * \<bar>p\<bar>"
proof -
  have "0 \<le> 7 / 4 * \<bar>p\<bar>" by simp
  then show ?thesis
    unfolding step_comp_Fin [OF assms] by (blast intro: clamp_abs_le)
qed

lemma quickprop_step_growth_bound:
  assumes "calc_gradient w s = Inr ((L, g, p), s')"
    and "length w = n" "length g = n" "length dw_prev = n" "length dL_prev = n"
    and "k < n"
  shows "\<exists>new_w dw. quickprop_step calc_gradient w dw_prev dL_prev lr gd s
                        = Inr ((new_w, dw, L, g, p), s')
           \<and> (dw ! k = NaN
                \<or> fl_le (fl_abs (dw ! k))
                     (fl_mul default_max_growth_factor (fl_abs (dw_prev ! k))))"
proof -
  have "step_comp (dw_prev ! k) (dL_prev ! k) (g ! k) lr gd = NaN
        \<or> fl_le (fl_abs (step_comp (dw_prev ! k) (dL_prev ! k) (g ! k) lr gd))
             (fl_mul default_max_growth_factor (fl_abs (dw_prev ! k)))"
    unfolding step_comp_def Let_def default_max_growth_factor_def
    using clip_comp_bound [where m = "7 / 4"] by fastforce
  with assms(6) show ?thesis
    by (simp add: quickprop_step_components
          [where calc_gradient = calc_gradient, OF assms(1-5)])
qed

text \<open>
  Claim C4 says that for every input and every component the returned delta satisfies
  \<open>|dw| \<le> 1.75 * |dw_prev|\<close>. It fails where the division by a zero gradient
  difference (claim C1) has made the delta NaN, which the clip passes on and which
  compares false with every bound: weight \<open>1\<close> of the quadratic loss (gradient \<open>-4\<close>),
  previous delta \<open>2\<close>, previous gradient \<open>-4\<close>.
\<close>

theorem growth_bound_fails_on_NaN:
  "quickprop_step quadratic_provider [Fin 1] [Fin 2] [Fin (- 4)]
        (Fin (1 / 10000)) default_gd_learning_rate 0
      = Inr (([NaN], [NaN], Fin 4, [Fin (- 4)], [Fin 1]), 1)
   \<and> \<not> fl_le (fl_abs NaN) (fl_mul default_max_growth_factor (fl_abs (Fin 2)))"
  by (simp add: quickprop_step_def raw_delta_def bop_def quadratic_provider_def
        decider_def fl_clip_def inf_times_def cond_add_slope_def slope_addition_def
        clip_at_max_growth_def default_gd_learning_rate_def)

section \<open>A delta of zero\<close>

text \<open>
  In the idealised arithmetic, on finite inputs with distinct gradients, a component
  whose previous delta is zero gets the delta zero again.
\<close>

lemma step_comp_zero_delta:
  assumes "gp \<noteq> g"
  shows "step_comp (Fin 0) (Fin gp) (Fin g) (Fin lr) (Fin gd) = Fin 0"
  using assms by (simp add: step_comp_Fin)

text \<open>
  Claim C9 says that a component whose previous delta is exactly zero gets the delta
  zero whatever the current gradient is, so that its parameter never changes again.
  It fails where the gradient equals the previous gradient (the division of claim C1):
  started at the minimum \<open>3\<close> of the quadratic loss, the seeding step leaves the
  delta \<open>0\<close>, and the first iteration of the driver, which calls \<open>quickprop_step\<close>
  with previous delta \<open>0\<close> and previous gradient \<open>0\<close>, turns delta and weight into NaN.
\<close>

theorem zero_delta_becomes_NaN:
  "map_sum id st_dw_prev (quickprop_init quadratic_provider [Fin 3] 0) = Inr [Fin 0]
   \<and> map_sum id (\<lambda>st. (st_dw_prev st, st_w st))
        (err_bind (quickprop_init quadratic_provider [Fin 3] 0)
           (loop_body quadratic_provider (Fin (1 / 10000))))
      = Inr ([NaN], [NaN])
   \<and> quickprop_step quadratic_provider [Fin 3] [Fin 0] [Fin 0]
        (Fin (1 / 10000)) default_gd_learning_rate 1
      = Inr (([NaN], [NaN], Fin 0, [Fin 0], [Fin 3]), 2)"
  by (simp add: quickprop_init_def grad_descent_step_def loop_body_def prep_iteration_def
        quickprop_step_def raw_delta_def bop_def quadratic_provider_def
        decider_def fl_clip_def inf_times_def cond_add_slope_def slope_addition_def
        clip_at_max_growth_def default_gd_learning_rate_def Let_def)

section \<open>Evaluating the rounding\<close>

text \<open>
  Once the exponent \<open>e\<close> of a number is known, \<open>2^e \<le> |x| < 2^(e + 1)\<close>, its rounding
  is a computation on rational numbers.
\<close>

lemma floor_log2_eq:
  assumes "2 powi e \<le> \<bar>x\<bar>" and "\<bar>x\<bar> < 2 powi (e + 1)"
  shows "\<lfloor>log 2 \<bar>x\<bar>\<rfloor> = e"
proof -
  have pos: "0 < \<bar>x\<bar>" using assms(1) by (smt (verit) zero_less_power_int)
  have a: "(2::real) powr (of_int e) = 2 powi e"
    by (rule powr_real_of_int') simp_all
  have "(2::real) powr (of_int (e + 1)) = 2 powi (e + 1)"
    by (rule powr_real_of_int') simp_all
  then have b: "(2::real) powr (of_int e + 1) = 2 powi (e + 1)"
    by simp
  from assms a b show ?thesis
    by (simp add: floor_log_eq_powr_iff [OF pos])
qed

lemma round_float_eval:
  assumes "2 powi e \<le> \<bar>x\<bar>" and "\<bar>x\<bar> < 2 powi (e + 1)"
  shows "round_float p emin emax x =
     (let q = max e emin - (int p - 1);
          r = of_int (rne (x / 2 powi q)) * 2 powi q
      in if 2 powi (emax + 1) \<le> \<bar>r\<bar> then (if 0 < x then PInf else NInf) else Fin r)"
proof -
  have "x \<noteq> 0" using assms(1) by (smt (verit) zero_less_power_int abs_zero)
  then show ?thesis
    by (simp add: round_float_def floor_log2_eq [OF assms])
qed

lemma round32_eval:
  assumes "2 powi e \<le> \<bar>x\<bar>" and "\<bar>x\<bar> < 2 powi (e + 1)"
  shows "round32 x =
     (let q = max e (- 126) - 23;
          r = of_int (rne (x / 2 powi q)) * 2 powi q
      in if 2 powi 128 \<le> \<bar>r\<bar> then (if 0 < x then PInf else NInf) else Fin r)"
  unfolding round32_def by (simp add: round_float_eval [OF assms])

lemma round64_eval:
  assumes "2 powi e \<le> \<bar>x\<bar>" and "\<bar>x\<bar> < 2 powi (e + 1)"
  shows "round64 x =
     (let q = max e (- 1022) - 52;
          r = of_int (rne (x / 2 powi q)) * 2 powi q
      in if 2 powi 1024 \<le> \<bar>r\<bar> then (if 0 < x then PInf else NInf) else Fin r)"
  unfolding round64_def by (simp add: round_float_eval [OF assms])

lemma round32_zero [simp]: "round32 0 = Fin 0"
  by (simp add: round32_def round_float_def)



text \<open>The roundings that the examples need, and the mean updates built from them.\<close>

lemma round32_values:
  "round32 1 = Fin 1"
  "round32 5 = Fin 5"
  "round32 (- 1) = Fin (- 1)"
  "round32 (1 / 2) = Fin (1 / 2)"
  "round32 (- (1 / 2)) = Fin (- (1 / 2))"
  "round32 (5 / 3) = Fin (13981013 / 8388608)"
  "round32 (55924055 / 33554432) = Fin (6990507 / 4194304)"
  "round32 (11184811 / 4194304) = Fin (11184811 / 4194304)"
  "round32 (22369621 / 8388608) = Fin (5592405 / 2097152)"
  "round32 (- (15 / 2)) = Fin (- (15 / 2))"
proof -
  show "round32 1 = Fin 1"
    by (subst round32_eval [where e = 0]) (simp_all add: rne_def power_int_minus)
  show "round32 5 = Fin 5"
    by (subst round32_eval [where e = 2]) (simp_all add: rne_def power_int_minus)
  show "round32 (- 1) = Fin (- 1)"
    by (subst round32_eval [where e = 0]) (simp_all add: rne_def power_int_minus)
  show "round32 (1 / 2) = Fin (1 / 2)"
    by (subst round32_eval [where e = "- 1"]) (simp_all add: rne_def power_int_minus)
  show "round32 (- (1 / 2)) = Fin (- (1 / 2))"
    by (subst round32_eval [where e = "- 1"]) (simp_all add: rne_def power_int_minus)
  show "round32 (5 / 3) = Fin (13981013 / 8388608)"
    by (subst round32_eval [where e = 0]) (simp_all add: rne_def power_int_minus)
  show "round32 (55924055 / 33554432) = Fin (6990507 / 4194304)"
    by (subst round32_eval [where e = 0]) (simp_all add: rne_def power_int_minus)
  show "round32 (11184811 / 4194304) = Fin (11184811 / 4194304)"
    by (subst round32_eval [where e = 1]) (simp_all add: rne_def power_int_minus)
  show "round32 (22369621 / 8388608) = Fin (5592405 / 2097152)"
    by (subst round32_eval [where e = 1]) (simp_all add: rne_def power_int_minus)
  show "round32 (- (15 / 2)) = Fin (- (15 / 2))"
    by (subst round32_eval [where e = 2]) (simp_all add: rne_def power_int_minus)
qed




lemma mean_update_NaN [simp]: "mean_update i m NaN = NaN"
  by (simp add: mean_update_def np_add_def np_sub_def np_mul_def to_f32_def)

text \<open>
  With numpy 1 the Python number \<^verbatim>\<open>1/(i+1)\<close> makes the product, and from then on the
  mean, a double. The product with the reciprocal and the quotient differ there as well:
  for the mean 1, the loss 6 and \<open>i = 2\<close> the first gives \<open>6004799503160661 / 2^51\<close>
  and the second \<open>6004799503160662 / 2^51\<close>.
\<close>

lemma mean_updates_differ_in_double:
  "round64 (1 / 3) = Fin (6004799503160661 / 18014398509481984)"
  "round64 (6004799503160661 / 18014398509481984 * 5) = Fin (3752999689475413 / 2251799813685248)"
  "round64 (1 + 3752999689475413 / 2251799813685248) = Fin (6004799503160661 / 2251799813685248)"
  "round64 (5 / 3) = Fin (7505999378950827 / 4503599627370496)"
  "round64 (1 + 7505999378950827 / 4503599627370496) = Fin (3002399751580331 / 1125899906842624)"
proof -
  show "round64 (1 / 3) = Fin (6004799503160661 / 18014398509481984)"
    by (subst round64_eval [where e = "- 2"]) (simp_all add: rne_def power_int_minus)
  show "round64 (6004799503160661 / 18014398509481984 * 5)
          = Fin (3752999689475413 / 2251799813685248)"
    by (subst round64_eval [where e = 0]) (simp_all add: rne_def power_int_minus)
  show "round64 (1 + 3752999689475413 / 2251799813685248)
          = Fin (6004799503160661 / 2251799813685248)"
    by (subst round64_eval [where e = 1]) (simp_all add: rne_def power_int_minus)
  show "round64 (5 / 3) = Fin (7505999378950827 / 4503599627370496)"
    by (subst round64_eval [where e = 0]) (simp_all add: rne_def power_int_minus)
  show "round64 (1 + 7505999378950827 / 4503599627370496)
          = Fin (3002399751580331 / 1125899906842624)"
    by (subst round64_eval [where e = 1]) (simp_all add: rne_def power_int_minus)
qed

text \<open>
  A product that is finite as a real number can overflow in float32: \<open>-1.5 * (1.5 * 2^127)\<close>
  is rounded to minus infinity.
\<close>

lemma is_fin_to_f32: "is_fin (to_f32 a) \<Longrightarrow> is_fin a"
  by (cases a) (simp_all add: to_f32_def is_fin_def)

lemma slope_product_overflows:
  "to_f32 (fl_mul (fl_neg (Fin (3 / 2))) (Fin (3 / 2 * 2 ^ 127))) = NInf"
proof -
  have "round32 (- (3 / 2 * (3 / 2 * 2 ^ 127))) = NInf"
    by (subst round32_eval [where e = 128]) (simp_all add: rne_def power_int_minus)
  then show ?thesis by (simp add: to_f32_def)
qed

section \<open>The conditional slope addition\<close>

text \<open>
  The decider \<open>ddw\<close> is \<open>clip(|sign(dw) + sign(dw_prev)|, 0, 1)\<close>: it is 0 exactly when
  the two signs add up to 0, and 1 when they add up to \<open>\<plusminus>1\<close> or \<open>\<plusminus>2\<close>. The
  product of the decider 0 with the slope term \<open>-learning_rate * dL\<close> is zero only if
  the slope term is finite: \<open>0 * inf\<close> is NaN. The two lemmas use no more of the
  arithmetic than \<open>0 * x = 0\<close> for finite \<open>x\<close>, \<open>d + 0 = d\<close> and \<open>1 * x = x\<close>, which
  hold in float32 too.
\<close>

lemma fl_add_zero_right:
  "d \<noteq> NaN \<Longrightarrow> fl_add d (Fin 0) = d"
  by (cases d) simp_all

lemma fl_mul_one_left: "fl_mul (Fin 1) a = a"
  by (cases a) (simp_all add: inf_times_def)

lemma slope_comp_opposite_signs:
  assumes "(fl_sign d = Fin 1 \<and> fl_sign p = Fin (- 1))
           \<or> (fl_sign d = Fin (- 1) \<and> fl_sign p = Fin 1)"
    and "is_fin (fl_mul (fl_neg lr) g)"
  shows "slope_comp d p g lr = Fin 0"
proof -
  from assms(2) obtain t where "fl_mul (fl_neg lr) g = Fin t"
    by (auto simp add: is_fin_def split: fl.splits)
  with assms(1) show ?thesis
    by (auto simp add: slope_comp_def fl_clip_def)
qed

lemma slope_comp_one_zero:
  assumes "(fl_sign d = Fin 0 \<and> (fl_sign p = Fin 1 \<or> fl_sign p = Fin (- 1)))
           \<or> ((fl_sign d = Fin 1 \<or> fl_sign d = Fin (- 1)) \<and> fl_sign p = Fin 0)"
  shows "slope_comp d p g lr = fl_mul (fl_neg lr) g"
  using assms by (auto simp add: slope_comp_def fl_clip_def fl_mul_one_left)

text \<open>
  Claim C5 says that in every component where \<open>sign(dw)\<close> differs from \<open>sign(dw_prev)\<close>,
  zero being a sign of its own, the term added by \<open>cond_add_slope\<close> is exactly zero. It
  is not where exactly one of the two is zero: for \<open>dw = 1\<close>, \<open>dw_prev = 0\<close>, \<open>dL = 1\<close>
  and the default learning rate \<open>1.5\<close> the signs differ and the term \<open>-1.5\<close> is added.
\<close>

theorem slope_added_when_one_sign_is_zero:
  "fl_sign (Fin 1) \<noteq> fl_sign (Fin 0)
   \<and> slope_addition [Fin 1] [Fin 0] [Fin 1] (Fin (3 / 2)) = Inr [Fin (- (3 / 2))]
   \<and> cond_add_slope [Fin 1] [Fin 0] [Fin 1] (Fin (3 / 2)) = Inr [Fin (- (1 / 2))]"
  by (simp add: cond_add_slope_def slope_addition_def bop_def fl_clip_def)

text \<open>
  Claim C5, amended. In every component where \<open>dw\<close> and \<open>dw_prev\<close> have opposite signs
  (one positive, the other negative) and the product \<open>-learning_rate * dL\<close> of that
  component is finite in float32 (it is not when the gradient is infinite or NaN, or
  when the product overflows), the term added by \<open>cond_add_slope\<close> is exactly zero and
  the component of \<open>dw\<close> is returned unchanged. In every component where exactly one of
  \<open>dw\<close> and \<open>dw_prev\<close> is zero, the decider is 1 and the term added is the product
  \<open>-learning_rate * dL\<close>.
\<close>

theorem slope_addition_by_signs:
  assumes "length dw = n" "length dw_prev = n" "length dL = n" "k < n"
  shows "\<exists>t r. slope_addition dw dw_prev dL learning_rate = Inr t
           \<and> cond_add_slope dw dw_prev dL learning_rate = Inr r
           \<and> r ! k = fl_add (dw ! k) (t ! k)
           \<and> (((fl_sign (dw ! k) = Fin 1 \<and> fl_sign (dw_prev ! k) = Fin (- 1))
                 \<or> (fl_sign (dw ! k) = Fin (- 1) \<and> fl_sign (dw_prev ! k) = Fin 1))
                \<and> is_fin (to_f32 (fl_mul (fl_neg learning_rate) (dL ! k)))
               \<longrightarrow> t ! k = Fin 0 \<and> r ! k = dw ! k)
           \<and> ((fl_sign (dw ! k) = Fin 0
                  \<and> (fl_sign (dw_prev ! k) = Fin 1 \<or> fl_sign (dw_prev ! k) = Fin (- 1)))
                \<or> ((fl_sign (dw ! k) = Fin 1 \<or> fl_sign (dw ! k) = Fin (- 1))
                    \<and> fl_sign (dw_prev ! k) = Fin 0)
               \<longrightarrow> t ! k = fl_mul (fl_neg learning_rate) (dL ! k))"
proof -
  let ?c = "slope_comp (dw ! k) (dw_prev ! k) (dL ! k) learning_rate"
  let ?opp = "(fl_sign (dw ! k) = Fin 1 \<and> fl_sign (dw_prev ! k) = Fin (- 1))
              \<or> (fl_sign (dw ! k) = Fin (- 1) \<and> fl_sign (dw_prev ! k) = Fin 1)"
  let ?one = "(fl_sign (dw ! k) = Fin 0
                \<and> (fl_sign (dw_prev ! k) = Fin 1 \<or> fl_sign (dw_prev ! k) = Fin (- 1)))
              \<or> ((fl_sign (dw ! k) = Fin 1 \<or> fl_sign (dw ! k) = Fin (- 1))
                  \<and> fl_sign (dw_prev ! k) = Fin 0)"
  have a: "?opp \<and> is_fin (to_f32 (fl_mul (fl_neg learning_rate) (dL ! k)))
           \<longrightarrow> ?c = Fin 0 \<and> fl_add (dw ! k) ?c = dw ! k"
  proof (intro impI, elim conjE)
    assume s: ?opp and f: "is_fin (to_f32 (fl_mul (fl_neg learning_rate) (dL ! k)))"
    have z: "?c = Fin 0" by (rule slope_comp_opposite_signs [OF s is_fin_to_f32 [OF f]])
    from s have "dw ! k \<noteq> NaN" by auto
    with z show "?c = Fin 0 \<and> fl_add (dw ! k) ?c = dw ! k"
      by (simp add: fl_add_zero_right)
  qed
  have b: "?one \<longrightarrow> ?c = fl_mul (fl_neg learning_rate) (dL ! k)"
    by (intro impI) (rule slope_comp_one_zero)
  let ?T = "map (\<lambda>k. slope_comp (dw ! k) (dw_prev ! k) (dL ! k) learning_rate) [0..<n]"
  let ?R = "map (\<lambda>k. fl_add (dw ! k)
                   (slope_comp (dw ! k) (dw_prev ! k) (dL ! k) learning_rate)) [0..<n]"
  have t: "slope_addition dw dw_prev dL learning_rate = Inr ?T"
    by (rule slope_addition_components [OF assms(1-3)])
  have r: "cond_add_slope dw dw_prev dL learning_rate = Inr ?R"
    by (rule cond_add_slope_components [OF assms(1-3)])
  have tk: "?T ! k = ?c" and rk: "?R ! k = fl_add (dw ! k) ?c"
    using assms(4) by simp_all
  from a b have "?R ! k = fl_add (dw ! k) (?T ! k)
      \<and> (?opp \<and> is_fin (to_f32 (fl_mul (fl_neg learning_rate) (dL ! k)))
           \<longrightarrow> ?T ! k = Fin 0 \<and> ?R ! k = dw ! k)
      \<and> (?one \<longrightarrow> ?T ! k = fl_mul (fl_neg learning_rate) (dL ! k))"
    by (simp only: tk rk)
  then show ?thesis
    unfolding t r by blast
qed

theorem slope_addition_by_signs_witness:
  "slope_addition [Fin 2, Fin 0] [Fin (- 1), Fin 4] [Fin 5, Fin 5] (Fin (3 / 2))
     = Inr [Fin 0, Fin (- (15 / 2))]
   \<and> cond_add_slope [Fin 2, Fin 0] [Fin (- 1), Fin 4] [Fin 5, Fin 5] (Fin (3 / 2))
     = Inr [Fin 2, Fin (- (15 / 2))]"
proof -
  let ?dw = "[Fin 2, Fin 0]" and ?dp = "[Fin (- 1), Fin 4]" and ?dL = "[Fin 5, Fin 5]"
  from slope_addition_by_signs [where dw = ?dw and dw_prev = ?dp and dL = ?dL and n = 2
         and k = 0 and learning_rate = "Fin (3 / 2)"]
  obtain t r where t: "slope_addition ?dw ?dp ?dL (Fin (3 / 2)) = Inr t"
    and r: "cond_add_slope ?dw ?dp ?dL (Fin (3 / 2)) = Inr r"
    and k0: "t ! 0 = Fin 0" "r ! 0 = Fin 2"
    by (auto simp add: is_fin_def to_f32_def round32_values)
  from slope_addition_by_signs [where dw = ?dw and dw_prev = ?dp and dL = ?dL and n = 2
         and k = 1 and learning_rate = "Fin (3 / 2)"] t r
  have k1: "t ! 1 = Fin (- (15 / 2))" "r ! 1 = Fin (- (15 / 2))"
    by auto
  have "length t = 2" "length r = 2"
    using t r
    by (auto simp add: slope_addition_components [where n = 2]
          cond_add_slope_components [where n = 2])
  then obtain t0 t1 r0 r1 where "t = [t0, t1]" "r = [r0, r1]"
    by (auto simp add: length_Suc_conv numeral_2_eq_2)
  with k0 k1 t r show ?thesis by simp
qed

section \<open>Tensors of different lengths\<close>

text \<open>A tensor with a single component is stretched against any other tensor.\<close>

lemma bop_single_left: "bop f [a] ys = Inr (map (f a) ys)"
proof (cases "length ys = 1")
  case True
  then obtain y where "ys = [y]" by (cases ys) auto
  then show ?thesis by (simp add: bop_def)
next
  case False
  then show ?thesis by (simp add: bop_def)
qed

lemma bop_single_right: "bop f xs [b] = Inr (map (\<lambda>x. f x b) xs)"
proof (cases "length xs = 1")
  case True
  then obtain x where "xs = [x]" by (cases xs) auto
  then show ?thesis by (simp add: bop_def)
next
  case False
  then show ?thesis by (simp add: bop_def)
qed

lemma raw_delta_single:
  "raw_delta [a] [b] g gd = Inr (map (\<lambda>k. raw_comp a b (g ! k) gd) [0..<length g])"
  by (auto simp add: raw_delta_def bop_single_left bop_same_length Let_def raw_comp_def
        intro!: nth_equalityI)

lemma cond_add_slope_single:
  assumes "length dw = length g"
  shows "cond_add_slope dw [a] g lr =
           Inr (map (\<lambda>k. fl_add (dw ! k) (slope_comp (dw ! k) a (g ! k) lr)) [0..<length g])"
  using assms
  by (auto simp add: cond_add_slope_def slope_addition_def bop_single_right bop_same_length
        Let_def slope_comp_def intro!: nth_equalityI)

lemma clip_at_max_growth_single:
  "clip_at_max_growth dw [a] mgf = Inr (map (\<lambda>k. clip_comp (dw ! k) a mgf) [0..<length dw])"
  by (auto simp add: clip_at_max_growth_def bop_single_right bop_single_left Let_def
        clip_comp_def intro!: nth_equalityI)

text \<open>
  Claim C7 says that \<open>quickprop_step\<close> checks at entry that parameter, gradient and delta
  have the same length and reports a mismatch at once instead of producing elementwise
  results. There is no such check: with two weights and a previous delta and a previous
  gradient of one component each, the one-component tensors are broadcast and the step
  returns a delta and new weights of two components.
\<close>

theorem quickprop_step_broadcasts:
  "length [Fin 0, Fin 1] \<noteq> length [Fin 1]
   \<and> quickprop_step quadratic_provider [Fin 0, Fin 1] [Fin 1] [Fin 1]
        (Fin (3 / 2)) default_gd_learning_rate 0
      = Inr (([Fin (- (6 / 7)), Fin (1 / 5)], [Fin (- (6 / 7)), Fin (- (4 / 5))],
              Fin 13, [Fin (- 6), Fin (- 4)], [Fin 0, Fin 1]), 1)"
  by (simp add: quickprop_step_def raw_delta_def bop_single_left bop_single_right
        bop_same_length quadratic_provider_def
        decider_Fin fl_clip_def inf_times_def cond_add_slope_def slope_addition_def
        clip_at_max_growth_def default_gd_learning_rate_def default_max_growth_factor_def)

text \<open>
  Claim C7, amended. \<open>quickprop_step\<close> does not check the lengths of its arguments: for
  a parameter tensor of any length, whose gradient the provider returns in the
  parameter's shape, and a previous delta and a previous gradient of a single component
  each, the single components are broadcast, no error is raised, and the step returns
  the elementwise results in the parameter's length.
\<close>

theorem quickprop_step_no_entry_check:
  assumes "calc_gradient w s = Inr ((L, g, p), s')" and "length g = length w"
  shows "quickprop_step calc_gradient w [a] [b] lr gd s
          = Inr ((map (\<lambda>k. fl_add (w ! k) (step_comp a b (g ! k) lr gd)) [0..<length w],
                  map (\<lambda>k. step_comp a b (g ! k) lr gd) [0..<length w],
                  L, g, p), s')"
  using assms
  by (auto simp add: quickprop_step_def raw_delta_single cond_add_slope_single
        clip_at_max_growth_single bop_same_length step_comp_def Let_def
        intro!: nth_equalityI)

theorem quickprop_step_no_entry_check_witness:
  "quickprop_step quadratic_provider [Fin 0, Fin 1] [Fin 1] [Fin 1]
        (Fin (3 / 2)) default_gd_learning_rate 0
      = Inr ((map (\<lambda>k. fl_add ([Fin 0, Fin 1] ! k)
                       (step_comp (Fin 1) (Fin 1) ([Fin (- 6), Fin (- 4)] ! k) (Fin (3 / 2))
                          default_gd_learning_rate)) [0..<length [Fin 0, Fin (1::real)]],
              map (\<lambda>k. step_comp (Fin 1) (Fin 1) ([Fin (- 6), Fin (- 4)] ! k) (Fin (3 / 2))
                          default_gd_learning_rate) [0..<length [Fin 0, Fin (1::real)]],
              Fin 13, [Fin (- 6), Fin (- 4)], [Fin 0, Fin 1]), 1)"
proof -
  have h: "quadratic_provider [Fin 0, Fin 1] 0
             = Inr ((Fin 13, [Fin (- 6), Fin (- 4)], [Fin 0, Fin 1]), 1)"
    by (simp add: quadratic_provider_def)
  have l: "length [Fin (- 6), Fin (- 4)] = length [Fin 0, Fin (1::real)]"
    by simp
  show ?thesis
    by (rule quickprop_step_no_entry_check
          [where calc_gradient = quadratic_provider, OF h l])
qed

section \<open>The driver\<close>

subsection \<open>The example runs\<close>



lemma quickprop_init_seeded: "quickprop_init quadratic_provider [Fin 0] 0 = Inr seeded"
  by (simp add: seeded_def quickprop_init_def grad_descent_step_def quadratic_provider_def
        bop_def default_gd_learning_rate_def Let_def)








subsection \<open>One iteration\<close>






lemma quickprop_init_state:
  assumes "quickprop_init cg weights s = Inr st0"
  shows "st_L_mean st0 = Fin 1" "st_L_mean_prev st0 = Fin 1" "st_L_mean_diff st0 = Fin 1"
    "st_i st0 = 0" "st_predicted st0 = None"
    "st_dL st0 = replicate (length weights) (Fin 0)"
  using assms
  by (auto simp add: quickprop_init_def err_bind_def split: sum.splits prod.splits)





subsection \<open>The loop\<close>










subsection \<open>The seeding step and the first iteration\<close>

text \<open>
  Whatever the seeding step returns, the first iteration passes its delta on, but
  replaces the previous gradient by \<open>dL\<close>, which still holds the initial zeros.
\<close>

lemma first_step_arguments:
  assumes "grad_descent_step cg weights default_gd_learning_rate s = Inr ((w, dw, L, dL), s')"
  shows "\<exists>st0. quickprop_init cg weights s = Inr st0
           \<and> st_w (prep_iteration st0) = w
           \<and> st_dw_prev (prep_iteration st0) = dw
           \<and> st_dL_prev (prep_iteration st0) = replicate (length weights) (Fin 0)
           \<and> st_prov (prep_iteration st0) = s'"
  using assms by (simp add: quickprop_init_def prep_iteration_def)

text \<open>
  Claim C2 says that the previous delta and the previous gradient passed into the first
  invocation of \<open>quickprop_step\<close> are the delta and the gradient of the seeding
  gradient-descent step. The delta is; the gradient is not: for the weight \<open>0\<close> of the
  quadratic loss the seeding step returns the gradient \<open>-6\<close>, and the first iteration
  calls \<open>quickprop_step\<close> with the previous gradient \<open>0\<close>.
\<close>

theorem first_step_gets_zero_gradient:
  "grad_descent_step quadratic_provider [Fin 0] default_gd_learning_rate 0
     = Inr (([Fin (3 / 50000)], [Fin (3 / 50000)], Fin 9, [Fin (- 6)]), 1)
   \<and> map_sum id (\<lambda>st. (st_dw_prev (prep_iteration st), st_dL_prev (prep_iteration st)))
        (quickprop_init quadratic_provider [Fin 0] 0)
      = Inr ([Fin (3 / 50000)], [Fin 0])"
  by (simp add: quickprop_init_def grad_descent_step_def quadratic_provider_def
        bop_def default_gd_learning_rate_def Let_def prep_iteration_def)

subsection \<open>The running mean\<close>




subsection \<open>Termination within the patience\<close>




subsection \<open>No iteration at all\<close>

text \<open>
  Claim C10. When the loop body runs zero times, because the initial difference 1 is
  not above the tolerance (any tolerance of at least 1) or because the patience is not
  positive, \<open>quickprop\<close> returns no result: once the seeding step has succeeded, it
  raises \<open>AttributeError\<close> at \<^verbatim>\<open>predicted.detach()\<close>, \<^verbatim>\<open>predicted\<close> being
  still the empty list.
\<close>

theorem quickprop_zero_iterations_raises:
  assumes "quickprop_init cg weights s = Inr st0" and "fl_le (Fin 1) tol \<or> pat \<le> 0"
  shows "quickprop cg weights lr tol pat s = Inl AttributeError"
proof -
  from assms(2) have "\<not> (fl_gt (Fin 1) tol \<and> 0 < pat)"
    by (cases tol) (auto simp add: fl_gt_def)
  then have g: "\<not> (fl_gt (st_L_mean_diff st0) tol \<and> st_i st0 < pat)"
    by (simp add: quickprop_init_state [OF assms(1)])
  have "qp_loop cg lr tol pat st0 = Inr st0"
    by (subst qp_loop.simps) (simp only: g if_False)
  then show ?thesis
    by (simp add: quickprop_def assms(1) quickprop_init_state [OF assms(1)])
qed

theorem quickprop_zero_iterations_raises_witness:
  "quickprop quadratic_provider [Fin 0] (Fin (1 / 10000)) (Fin 1) 20000 0
     = Inl AttributeError"
proof -
  have c: "fl_le (Fin 1) (Fin 1) \<or> (20000::int) \<le> 0" by simp
  show ?thesis by (rule quickprop_zero_iterations_raises [OF quickprop_init_seeded c])
qed

end
